theory Spec2Isabelle
  imports Complex_Main
begin

section \<open>Data model (app/models.py, app/schemas.py)\<close>

text \<open>
  The tables of \<^verbatim>\<open>app/models.py\<close> are lists of rows, in storage order. Integer
  columns are natural numbers, \<^verbatim>\<open>DateTime\<close> columns are integers (seconds), nullable
  where the column is. A \<^verbatim>\<open>Float\<close> column holds a finite double, written as the real
  number it denotes; arithmetic on these values is the arithmetic of doubles, which
  rounds (see the section on double-precision arithmetic). Infinities and NaN as stored
  values are outside the model. Field names carry a prefix per
  table because record fields share one name space.
\<close>

type_synonym timestamp = int

record Product =
  p_id :: nat
  p_name :: string
  p_quantity :: real
  p_delivery_date :: "timestamp option"
  p_threshold :: real

record Meal =
  m_id :: nat
  m_name :: string

record MealIngredient =
  mi_meal_id :: nat
  mi_product_id :: nat
  mi_quantity :: real

record MealServing =
  ms_id :: nat
  ms_meal_id :: nat
  ms_user_id :: nat
  ms_timestamp :: timestamp

record InventoryLog =
  il_id :: nat
  il_product_id :: nat
  il_change_type :: string
  il_quantity :: real
  il_timestamp :: timestamp
  il_user_id :: nat

text \<open>Request bodies of \<^verbatim>\<open>app/schemas.py\<close>.\<close>

record ProductCreate =
  pc_name :: string
  pc_quantity :: real
  pc_threshold :: real
  pc_delivery_date :: "timestamp option"

record MealCreate =
  mc_name :: string
  mc_ingredients :: "MealIngredient list"

record MealServingCreate =
  msc_meal_id :: nat

record PortionEstimate =
  pe_meal_id :: nat
  pe_name :: string
  pe_portions :: int

text \<open>
  \<^verbatim>\<open>quantity: float = Field(ge=0)\<close> and \<^verbatim>\<open>threshold: float = Field(ge=0)\<close> of
  \<^verbatim>\<open>ProductCreate\<close>: a body is parsed into a \<^verbatim>\<open>ProductCreate\<close> only when both hold.
\<close>

definition ProductCreate_valid :: "ProductCreate \<Rightarrow> bool" where
  "ProductCreate_valid pc \<longleftrightarrow> 0 \<le> pc_quantity pc \<and> 0 \<le> pc_threshold pc"

text \<open>The persistent store: one list of rows per table.\<close>

record database =
  products :: "Product list"
  meals :: "Meal list"
  meal_ingredients :: "MealIngredient list"
  meal_servings :: "MealServing list"
  inventory_logs :: "InventoryLog list"

text \<open>
  Exceptions the modelled code raises. \<^verbatim>\<open>HTTPException(status_code, detail)\<close> keeps both
  arguments. \<^verbatim>\<open>Exception msg e\<close> is \<^verbatim>\<open>Exception(f"{msg}{str(e)}")\<close> raised while handling
  \<open>e\<close>.
\<close>

datatype error =
    HTTPException nat string
  | IntegrityError
  | AttributeError
  | OverflowError
  | TypeError
  | ZeroDivisionError
  | Exception string error

section \<open>Double-precision arithmetic\<close>

text \<open>
  A Python \<^verbatim>\<open>float\<close> is an IEEE 754 binary64 number. A finite double is \<open>n * 2^e\<close>
  with an integer \<open>n\<close> of magnitude at most \<open>2^53\<close> and \<open>e \<ge> -1074\<close>, and is below
  \<open>2^1024\<close> in magnitude. An operation on doubles computes the exact result and rounds
  it to the nearest double, a tie going to the even \<open>n\<close>; a rounded magnitude of
  \<open>2^1024\<close> or more is an overflow, which gives an infinity.
\<close>

text \<open>The nearest integer, a tie going to the even one.\<close>

definition round_half_even :: "real \<Rightarrow> int" where
  "round_half_even y =
     (let n = \<lfloor>y\<rfloor>; r = y - of_int n
      in if r < 1/2 then n else if 1/2 < r then n + 1 else if even n then n else n + 1)"

text \<open>
  \<open>scale fuel y 0\<close> writes \<open>y \<ge> 0\<close> as \<open>m * 2^e\<close> with \<open>2^52 \<le> m < 2^53\<close>, or with
  \<open>e = -1074\<close> and \<open>m < 2^52\<close> for the subnormal range: \<open>2^e\<close> is the spacing of the
  doubles around \<open>y\<close>. 2200 steps cover every magnitude up to the overflow threshold
  and beyond.
\<close>

fun scale :: "nat \<Rightarrow> real \<Rightarrow> int \<Rightarrow> real \<times> int" where
  "scale 0 y e = (y, e)"
| "scale (Suc fuel) y e =
     (if 2 ^ 53 \<le> y then scale fuel (y / 2) (e + 1)
      else if y < 2 ^ 52 \<and> - 1074 < e then scale fuel (y * 2) (e - 1)
      else (y, e))"

definition pow2 :: "int \<Rightarrow> real" where
  "pow2 e = (if 0 \<le> e then 2 ^ nat e else 1 / 2 ^ nat (- e))"

definition round_magnitude :: "real \<Rightarrow> real" where
  "round_magnitude y = (case scale 2200 y 0 of (m, e) \<Rightarrow> of_int (round_half_even m) * pow2 e)"

text \<open>Round to nearest, ties to even; the result of an overflow is \<open>2^1024\<close> or more.\<close>

definition double_round :: "real \<Rightarrow> real" where
  "double_round x = (if x < 0 then - round_magnitude (- x) else round_magnitude x)"

text \<open>The value of a float expression: a finite double or an infinity.\<close>

datatype pyfloat = Finite real | Infinite

text \<open>\<^verbatim>\<open>x / y\<close> on floats: \<^verbatim>\<open>ZeroDivisionError\<close> for a zero divisor.\<close>

definition float_truediv :: "real \<Rightarrow> real \<Rightarrow> error + pyfloat" where
  "float_truediv x y =
     (if y = 0 then Inl ZeroDivisionError
      else let r = double_round (x / y)
           in if 2 ^ 1024 \<le> \<bar>r\<bar> then Inr Infinite else Inr (Finite r))"

text \<open>\<^verbatim>\<open>math.floor\<close>: \<^verbatim>\<open>OverflowError\<close> for an infinity.\<close>

fun py_floor :: "pyfloat \<Rightarrow> error + int" where
  "py_floor Infinite = Inl OverflowError"
| "py_floor (Finite r) = Inr \<lfloor>r\<rfloor>"

text \<open>
  \<^verbatim>\<open>x - y\<close> on floats. For stock and ingredient quantities that are not negative the
  difference taken by \<^verbatim>\<open>serve_meal\<close> lies between 0 and the stock and cannot overflow;
  an overflowing difference is outside the model.
\<close>

definition float_sub :: "real \<Rightarrow> real \<Rightarrow> real" where
  "float_sub x y = double_round (x - y)"

text \<open>\<^verbatim>\<open>x * y\<close> on floats, overflow likewise outside the model.\<close>

definition float_mul :: "real \<Rightarrow> real \<Rightarrow> real" where
  "float_mul x y = double_round (x * y)"

section \<open>Queries\<close>

text \<open>
  \<^verbatim>\<open>select(Product).where(Product.id == product_id)\<close> followed by
  \<^verbatim>\<open>.scalars().first()\<close>: the first matching row or \<^verbatim>\<open>None\<close>.
\<close>

definition select_product :: "database \<Rightarrow> nat \<Rightarrow> Product option" where
  "select_product db pid = find (\<lambda>p. p_id p = pid) (products db)"

definition select_meal :: "database \<Rightarrow> nat \<Rightarrow> Meal option" where
  "select_meal db mid = find (\<lambda>m. m_id m = mid) (meals db)"

text \<open>\<^verbatim>\<open>select(MealIngredient).where(MealIngredient.meal_id == meal_id)\<close>, \<^verbatim>\<open>.all()\<close>.\<close>

definition select_ingredients :: "database \<Rightarrow> nat \<Rightarrow> MealIngredient list" where
  "select_ingredients db mid = filter (\<lambda>i. mi_meal_id i = mid) (meal_ingredients db)"

text \<open>\<^verbatim>\<open>select(MealServing).where(MealServing.meal_id == meal_id)\<close>, \<^verbatim>\<open>.first()\<close>.\<close>

definition select_serving :: "database \<Rightarrow> nat \<Rightarrow> MealServing option" where
  "select_serving db mid = find (\<lambda>s. ms_meal_id s = mid) (meal_servings db)"

text \<open>
  Primary keys are assigned by the store when a new row is flushed: one more than the
  largest key in the table, so the new key is unused.
\<close>

definition next_id :: "nat list \<Rightarrow> nat" where
  "next_id ks = Suc (foldr max ks 0)"

section \<open>Portion estimates (app/crud.py, get\_portion\_estimates)\<close>

text \<open>
  The accumulator \<^verbatim>\<open>portions\<close> starts as \<^verbatim>\<open>float("inf")\<close> and becomes an \<^verbatim>\<open>int\<close> at
  the first \<^verbatim>\<open>min(portions, avail)\<close>, since every \<^verbatim>\<open>avail\<close> is an \<^verbatim>\<open>int\<close>.
\<close>

datatype portions = Float_inf | Int_val int

text \<open>\<^verbatim>\<open>min(portions, avail)\<close>: the second argument wins only when strictly smaller.\<close>

fun py_min :: "portions \<Rightarrow> int \<Rightarrow> portions" where
  "py_min Float_inf a = Int_val a"
| "py_min (Int_val b) a = Int_val (if a < b then a else b)"

text \<open>\<^verbatim>\<open>int(portions)\<close>: \<^verbatim>\<open>int(float("inf"))\<close> raises \<^verbatim>\<open>OverflowError\<close>.\<close>

fun int_of :: "portions \<Rightarrow> error + int" where
  "int_of Float_inf = Inl OverflowError"
| "int_of (Int_val n) = Inr n"

text \<open>
  \<^verbatim>\<open>floor(product.quantity / ingredient.quantity) if ingredient.quantity > 0 else 0\<close>:
  the quotient is the quotient of doubles, and \<^verbatim>\<open>floor\<close> raises when it is infinite.
\<close>

definition avail :: "Product \<Rightarrow> MealIngredient \<Rightarrow> error + int" where
  "avail p i =
     (if mi_quantity i > 0 then
        (case float_truediv (p_quantity p) (mi_quantity i) of
           Inl e \<Rightarrow> Inl e
         | Inr q \<Rightarrow> py_floor q)
      else Inr 0)"

text \<open>The inner loop \<^verbatim>\<open>for ingredient in ingredients\<close> with its \<^verbatim>\<open>if product:\<close> guard.\<close>

fun portions_loop :: "database \<Rightarrow> MealIngredient list \<Rightarrow> portions \<Rightarrow> error + portions" where
  "portions_loop db [] acc = Inr acc"
| "portions_loop db (i # is) acc =
     (case select_product db (mi_product_id i) of
        None \<Rightarrow> portions_loop db is acc
      | Some p \<Rightarrow>
          (case avail p i of
             Inl e \<Rightarrow> Inl e
           | Inr a \<Rightarrow> portions_loop db is (py_min acc a)))"

text \<open>The body of the outer loop \<^verbatim>\<open>for meal in meals\<close>: the estimate of one meal.\<close>

definition estimate_meal :: "database \<Rightarrow> Meal \<Rightarrow> error + PortionEstimate" where
  "estimate_meal db meal =
     (let ingredients = select_ingredients db (m_id meal) in
      if ingredients = [] then
        Inr \<lparr>pe_meal_id = m_id meal, pe_name = m_name meal, pe_portions = 0\<rparr>
      else
        (case portions_loop db ingredients Float_inf of
           Inl e \<Rightarrow> Inl e
         | Inr portions \<Rightarrow>
             (case int_of portions of
                Inl e \<Rightarrow> Inl e
              | Inr n \<Rightarrow> Inr \<lparr>pe_meal_id = m_id meal, pe_name = m_name meal, pe_portions = n\<rparr>)))"

text \<open>The outer loop: an exception in one meal's estimate ends the whole call.\<close>

fun estimates_loop :: "database \<Rightarrow> Meal list \<Rightarrow> PortionEstimate list \<Rightarrow> error + PortionEstimate list" where
  "estimates_loop db [] estimates = Inr estimates"
| "estimates_loop db (meal # ms) estimates =
     (case estimate_meal db meal of
        Inl e \<Rightarrow> Inl e
      | Inr est \<Rightarrow> estimates_loop db ms (estimates @ [est]))"

definition get_portion_estimates :: "database \<Rightarrow> error + PortionEstimate list" where
  "get_portion_estimates db = estimates_loop db (meals db) []"

text \<open>
  The estimate in the words of the specification, restricted to the ingredients whose
  product is in the store and with the quotient of doubles: 0 for a meal without
  ingredients, otherwise the least \<open>floor (product.quantity / ingredient.quantity)\<close>,
  an ingredient with no positive quantity counting 0. \<open>finite_quotient\<close> says that the
  quotient of an ingredient does not overflow.
\<close>

definition has_product :: "database \<Rightarrow> MealIngredient \<Rightarrow> bool" where
  "has_product db i \<longleftrightarrow> select_product db (mi_product_id i) \<noteq> None"

definition double_quotient :: "database \<Rightarrow> MealIngredient \<Rightarrow> real" where
  "double_quotient db i =
     double_round (p_quantity (the (select_product db (mi_product_id i))) / mi_quantity i)"

definition finite_quotient :: "database \<Rightarrow> MealIngredient \<Rightarrow> bool" where
  "finite_quotient db i \<longleftrightarrow> mi_quantity i \<le> 0 \<or> \<bar>double_quotient db i\<bar> < 2 ^ 1024"

definition ratio :: "database \<Rightarrow> MealIngredient \<Rightarrow> int" where
  "ratio db i = (if mi_quantity i > 0 then \<lfloor>double_quotient db i\<rfloor> else 0)"

definition min_ratio_estimate :: "database \<Rightarrow> Meal \<Rightarrow> PortionEstimate" where
  "min_ratio_estimate db meal =
     \<lparr>pe_meal_id = m_id meal, pe_name = m_name meal,
      pe_portions =
        (if select_ingredients db (m_id meal) = [] then 0
         else Min (ratio db ` set (filter (has_product db) (select_ingredients db (m_id meal)))))\<rparr>"

section \<open>Sessions, commits and published messages\<close>

text \<open>
  A request works on an \<^verbatim>\<open>AsyncSession\<close>: reads and writes go to the session's view of
  the store (\<open>working\<close>), \<^verbatim>\<open>db.commit()\<close> makes that view the persistent one
  (\<open>committed\<close>). \<^verbatim>\<open>get_db\<close> of \<^verbatim>\<open>app/database.py\<close> opens the session for one
  request and leaves its \<^verbatim>\<open>async with\<close> block when the request ends, with or without
  an exception: the session is closed and whatever was not committed is dropped. Messages
  sent with \<^verbatim>\<open>redis_client.publish\<close> leave the process at once and are not part of
  any transaction; \<open>trace\<close> records them and the commits in the order they happen.
  Foreign keys are not enforced (as under the SQLite engine of the tests), the unique
  constraints on names are.
\<close>

datatype message = Inventory_updated real nat
  \<comment> \<open>\<^verbatim>\<open>f"Inventory updated: {ingredient.quantity}g of {ingredient.product_id}"\<close>\<close>

datatype effect = Publish string message | Commit

record world =
  committed :: database
  working :: database
  trace :: "effect list"

definition get_db :: "database \<Rightarrow> world" where
  "get_db db = \<lparr>committed = db, working = db, trace = []\<rparr>"

definition close :: "world \<Rightarrow> database" where
  "close w = committed w"

definition db_commit :: "world \<Rightarrow> world" where
  "db_commit w = w\<lparr>committed := working w, trace := trace w @ [Commit]\<rparr>"

definition publish :: "string \<Rightarrow> message \<Rightarrow> world \<Rightarrow> world" where
  "publish channel msg w = w\<lparr>trace := trace w @ [Publish channel msg]\<rparr>"

text \<open>An attribute assignment on the row a \<^verbatim>\<open>.first()\<close> returned changes that row only.\<close>

fun update_first :: "('a \<Rightarrow> bool) \<Rightarrow> ('a \<Rightarrow> 'a) \<Rightarrow> 'a list \<Rightarrow> 'a list" where
  "update_first P f [] = []"
| "update_first P f (x # xs) = (if P x then f x # xs else x # update_first P f xs)"

definition add_log :: "InventoryLog \<Rightarrow> world \<Rightarrow> world" where
  "add_log l w = w\<lparr>working := (working w)\<lparr>inventory_logs := inventory_logs (working w) @ [l]\<rparr>\<rparr>"

definition new_log :: "world \<Rightarrow> nat \<Rightarrow> string \<Rightarrow> real \<Rightarrow> timestamp \<Rightarrow> nat \<Rightarrow> InventoryLog" where
  "new_log w pid change q now uid =
     \<lparr>il_id = next_id (map il_id (inventory_logs (working w))), il_product_id = pid,
      il_change_type = change, il_quantity = q, il_timestamp = now, il_user_id = uid\<rparr>"

section \<open>Products (app/crud.py)\<close>

text \<open>
  \<^verbatim>\<open>create_product\<close>. \<^verbatim>\<open>await db.flush()\<close> inserts the row, so a name already in
  the table raises \<^verbatim>\<open>IntegrityError\<close> there, outside the \<^verbatim>\<open>try\<close>; the handler around
  the commit is then never entered. \<open>now\<close> is the value of \<^verbatim>\<open>datetime.utcnow()\<close>.
\<close>

definition create_product :: "world \<Rightarrow> ProductCreate \<Rightarrow> timestamp \<Rightarrow> (error + Product) \<times> world" where
  "create_product w product now =
     (if pc_name product \<in> p_name ` set (products (working w)) then (Inl IntegrityError, w)
      else
        let db_product = \<lparr>p_id = next_id (map p_id (products (working w))),
                          p_name = pc_name product, p_quantity = pc_quantity product,
                          p_delivery_date = Some now, p_threshold = pc_threshold product\<rparr>;
            w1 = w\<lparr>working := (working w)\<lparr>products := products (working w) @ [db_product]\<rparr>\<rparr>;
            w2 = add_log (new_log w1 (p_id db_product) ''delivery'' (pc_quantity product) now 1) w1
        in (Inr db_product, db_commit w2))"

definition get_product :: "world \<Rightarrow> nat \<Rightarrow> Product option" where
  "get_product w product_id = select_product (working w) product_id"

text \<open>
  \<^verbatim>\<open>update_product\<close>. \<^verbatim>\<open>product.dict()\<close> has the keys \<^verbatim>\<open>name\<close>, \<^verbatim>\<open>quantity\<close>,
  \<^verbatim>\<open>threshold\<close> and \<^verbatim>\<open>delivery_date\<close>; each is assigned. The commit raises
  \<^verbatim>\<open>IntegrityError\<close> when the new name is the name of another row.
\<close>

definition update_product ::
  "world \<Rightarrow> nat \<Rightarrow> ProductCreate \<Rightarrow> timestamp \<Rightarrow> (error + Product option) \<times> world" where
  "update_product w product_id product now =
     (case select_product (working w) product_id of
        None \<Rightarrow> (Inr None, w)
      | Some db_product \<Rightarrow>
          let old_quantity = p_quantity db_product;
              db_product' = db_product\<lparr>p_name := pc_name product, p_quantity := pc_quantity product,
                                       p_threshold := pc_threshold product,
                                       p_delivery_date := pc_delivery_date product\<rparr>;
              w1 = w\<lparr>working := (working w)\<lparr>products :=
                      update_first (\<lambda>p. p_id p = product_id) (\<lambda>_. db_product') (products (working w))\<rparr>\<rparr>;
              w2 = (if old_quantity \<noteq> p_quantity db_product' then
                      add_log (new_log w1 product_id
                        (if p_quantity db_product' > old_quantity then ''delivery'' else ''adjustment'')
                        \<bar>float_sub (p_quantity db_product') old_quantity\<bar> now 1) w1
                    else w1)
          in if pc_name product \<in> p_name ` set (filter (\<lambda>p. p_id p \<noteq> product_id) (products (working w)))
             then (Inl IntegrityError, w2)
             else (Inr (Some db_product'), db_commit w2))"

text \<open>
  \<^verbatim>\<open>delete_product\<close>. \<^verbatim>\<open>AsyncSession.delete\<close> is a coroutine function and the source
  calls \<^verbatim>\<open>db.delete(db_product)\<close> without \<^verbatim>\<open>await\<close>: the coroutine never runs and no row
  is marked for deletion. The removal log is added and committed.
\<close>

definition delete_product :: "world \<Rightarrow> nat \<Rightarrow> timestamp \<Rightarrow> (error + Product option) \<times> world" where
  "delete_product w product_id now =
     (case select_product (working w) product_id of
        None \<Rightarrow> (Inr None, w)
      | Some db_product \<Rightarrow>
          let w1 = add_log (new_log w product_id ''removal'' (p_quantity db_product) now 1) w
          in (Inr (Some db_product), db_commit w1))"

section \<open>Meals (app/crud.py)\<close>

text \<open>
  Decimal digits of a number, for \<^verbatim>\<open>f"Product with id {ingredient.product_id} not found"\<close>;
  \<open>digit\<close> is applied to numbers below 10 only.
\<close>

definition digit :: "nat \<Rightarrow> char" where
  "digit d = ''0123456789'' ! d"

fun str_nat :: "nat \<Rightarrow> string" where
  "str_nat n = (if n < 10 then [digit n] else str_nat (n div 10) @ [digit (n mod 10)])"

declare str_nat.simps [simp del]

text \<open>
  The loop \<^verbatim>\<open>for ingredient in meal.ingredients\<close> of \<^verbatim>\<open>create_meal\<close>: every row is added
  to the session under the new meal's id; a missing product raises 422.
\<close>

fun add_ingredients :: "nat \<Rightarrow> MealIngredient list \<Rightarrow> world \<Rightarrow> error option \<times> world" where
  "add_ingredients mid [] w = (None, w)"
| "add_ingredients mid (ingredient # rest) w =
     (case select_product (working w) (mi_product_id ingredient) of
        None \<Rightarrow>
          (Some (HTTPException 422
             (''Product with id '' @ str_nat (mi_product_id ingredient) @ '' not found'')), w)
      | Some product \<Rightarrow>
          add_ingredients mid rest
            (w\<lparr>working := (working w)\<lparr>meal_ingredients := meal_ingredients (working w) @
               [\<lparr>mi_meal_id = mid, mi_product_id = mi_product_id ingredient,
                 mi_quantity = mi_quantity ingredient\<rparr>]\<rparr>\<rparr>))"

text \<open>
  \<^verbatim>\<open>create_meal\<close>: the meal row is added and committed (a name already in the table raises
  \<^verbatim>\<open>IntegrityError\<close> there), then the ingredients are checked and added, then a second
  commit, which raises \<^verbatim>\<open>IntegrityError\<close> when two of the new rows share the primary key
  \<^verbatim>\<open>(meal_id, product_id)\<close>.
\<close>

definition create_meal :: "world \<Rightarrow> MealCreate \<Rightarrow> (error + Meal) \<times> world" where
  "create_meal w meal =
     (if mc_name meal \<in> m_name ` set (meals (working w)) then (Inl IntegrityError, w)
      else
        let db_meal = \<lparr>m_id = next_id (map m_id (meals (working w))), m_name = mc_name meal\<rparr>;
            w1 = db_commit (w\<lparr>working := (working w)\<lparr>meals := meals (working w) @ [db_meal]\<rparr>\<rparr>)
        in case add_ingredients (m_id db_meal) (mc_ingredients meal) w1 of
             (Some e, w2) \<Rightarrow> (Inl e, w2)
           | (None, w2) \<Rightarrow>
               if distinct (map mi_product_id (mc_ingredients meal)) then (Inr db_meal, db_commit w2)
               else (Inl IntegrityError, w2))"

text \<open>
  \<^verbatim>\<open>select(MealIngredient).where(...).delete()\<close>: a \<^verbatim>\<open>Select\<close> object of SQLAlchemy has
  no attribute \<^verbatim>\<open>delete\<close>, so evaluating the argument of \<^verbatim>\<open>db.execute\<close> raises
  \<^verbatim>\<open>AttributeError\<close> before any statement reaches the store.
\<close>

definition Select_delete :: "nat \<Rightarrow> error + unit" where
  "Select_delete meal_id = Inl AttributeError"

text \<open>
  \<^verbatim>\<open>delete_meal\<close>. After the ingredient statement the source calls
  \<^verbatim>\<open>db.delete(db_meal)\<close> without \<^verbatim>\<open>await\<close> (no row is marked, see
  \<open>delete_product\<close>) and commits.
\<close>

definition delete_meal :: "world \<Rightarrow> nat \<Rightarrow> (error + Meal option) \<times> world" where
  "delete_meal w meal_id =
     (case select_meal (working w) meal_id of
        None \<Rightarrow> (Inr None, w)
      | Some db_meal \<Rightarrow>
          (case select_serving (working w) meal_id of
             Some r \<Rightarrow> (Inl (HTTPException 400 ''Cannot delete meal with existing servings''), w)
           | None \<Rightarrow>
               (case Select_delete meal_id of
                  Inl e \<Rightarrow> (Inl e, w)
                | Inr _ \<Rightarrow> (Inr (Some db_meal), db_commit w))))"

text \<open>
  The handler \<^verbatim>\<open>delete_existing_meal\<close> of \<^verbatim>\<open>app/main.py\<close>, after its role check: the
  session of \<^verbatim>\<open>get_db\<close>, 404 when \<^verbatim>\<open>delete_meal\<close> returns \<^verbatim>\<open>None\<close>, and the
  store as the closed session leaves it.
\<close>

definition delete_existing_meal :: "database \<Rightarrow> nat \<Rightarrow> (error + string) \<times> database" where
  "delete_existing_meal db meal_id =
     (case delete_meal (get_db db) meal_id of
        (Inl e, w) \<Rightarrow> (Inl e, close w)
      | (Inr None, w) \<Rightarrow> (Inl (HTTPException 404 ''Meal not found''), close w)
      | (Inr (Some meal), w) \<Rightarrow> (Inr ''Meal deleted'', close w))"

section \<open>Serving a meal (app/crud.py, serve\_meal)\<close>

text \<open>
  The body of the loop \<^verbatim>\<open>for ingredient in ingredients\<close>: the check, the decrement
  of the loaded row (\<^verbatim>\<open>product.quantity -= ingredient.quantity\<close>, a subtraction of
  doubles), the log entry added to the session, the message published. A failing check
  raises 400; \<^verbatim>\<open>'product'\<close> stands for the name of a missing product.
\<close>

definition serve_ingredient :: "MealIngredient \<Rightarrow> nat \<Rightarrow> timestamp \<Rightarrow> world \<Rightarrow> error + world" where
  "serve_ingredient ingredient user_id now w =
     (case select_product (working w) (mi_product_id ingredient) of
        None \<Rightarrow> Inl (HTTPException 400 (''Insufficient quantity for '' @ ''product''))
      | Some product \<Rightarrow>
          if p_quantity product < mi_quantity ingredient then
            Inl (HTTPException 400 (''Insufficient quantity for '' @ p_name product))
          else
            let w1 = w\<lparr>working := (working w)\<lparr>products :=
                       update_first (\<lambda>p. p_id p = mi_product_id ingredient)
                         (\<lambda>p. p\<lparr>p_quantity := float_sub (p_quantity p) (mi_quantity ingredient)\<rparr>)
                         (products (working w))\<rparr>\<rparr>;
                w2 = add_log (new_log w1 (mi_product_id ingredient) ''consumption''
                                (mi_quantity ingredient) now user_id) w1
            in Inr (publish ''inventory_updates''
                      (Inventory_updated (mi_quantity ingredient) (mi_product_id ingredient)) w2))"

text \<open>The loop: the first exception leaves it, with the session as it is then.\<close>

fun serve_ingredients :: "MealIngredient list \<Rightarrow> nat \<Rightarrow> timestamp \<Rightarrow> world \<Rightarrow> error option \<times> world" where
  "serve_ingredients [] user_id now w = (None, w)"
| "serve_ingredients (ingredient # rest) user_id now w =
     (case serve_ingredient ingredient user_id now w of
        Inl e \<Rightarrow> (Some e, w)
      | Inr w1 \<Rightarrow> serve_ingredients rest user_id now w1)"

text \<open>
  \<^verbatim>\<open>serve_meal\<close>: 404 for a meal without ingredient rows, the loop, then the serving
  row and the only commit. The Redis client is opened before the loop and closed in the
  \<^verbatim>\<open>finally\<close> clause on every path; connecting and publishing are taken to succeed.
\<close>

definition serve_meal ::
  "world \<Rightarrow> MealServingCreate \<Rightarrow> nat \<Rightarrow> timestamp \<Rightarrow> (error + MealServing) \<times> world" where
  "serve_meal w meal_serving user_id now =
     (let ingredients = select_ingredients (working w) (msc_meal_id meal_serving) in
      if ingredients = [] then (Inl (HTTPException 404 ''Meal has no ingredients defined''), w)
      else
        (case serve_ingredients ingredients user_id now w of
           (Some e, w1) \<Rightarrow> (Inl e, w1)
         | (None, w1) \<Rightarrow>
             let serving = \<lparr>ms_id = next_id (map ms_id (meal_servings (working w1))),
                            ms_meal_id = msc_meal_id meal_serving, ms_user_id = user_id,
                            ms_timestamp = now\<rparr>;
                 w2 = w1\<lparr>working := (working w1)\<lparr>meal_servings :=
                         meal_servings (working w1) @ [serving]\<rparr>\<rparr>
             in (Inr serving, db_commit w2)))"

text \<open>
  Words of the specification about one serving: an ingredient the stock cannot cover,
  the notification of an ingredient, the ledger entry of an ingredient.
\<close>

definition insufficient :: "database \<Rightarrow> MealIngredient \<Rightarrow> bool" where
  "insufficient db i =
     (case select_product db (mi_product_id i) of
        None \<Rightarrow> True
      | Some p \<Rightarrow> p_quantity p < mi_quantity i)"

definition notification :: "MealIngredient \<Rightarrow> effect" where
  "notification i =
     Publish ''inventory_updates'' (Inventory_updated (mi_quantity i) (mi_product_id i))"

definition consumption_of :: "nat \<Rightarrow> timestamp \<Rightarrow> InventoryLog \<Rightarrow> MealIngredient \<Rightarrow> bool" where
  "consumption_of user_id now l i \<longleftrightarrow>
     il_product_id l = mi_product_id i \<and> il_change_type l = ''consumption'' \<and>
     il_quantity l = mi_quantity i \<and> il_timestamp l = now \<and> il_user_id l = user_id"

section \<open>Requests in sequence\<close>

text \<open>
  One request of the product and serving endpoints of \<^verbatim>\<open>app/main.py\<close>, after its role
  check: a body that fails the \<^verbatim>\<open>ProductCreate\<close> validation is answered 422 before
  the handler runs; otherwise the handler runs in the session of \<^verbatim>\<open>get_db\<close>, which
  is closed when the request ends.
\<close>

datatype operation =
    Create_product ProductCreate
  | Update_product nat ProductCreate
  | Delete_product nat
  | Serve_meal MealServingCreate nat

fun step :: "database \<Rightarrow> operation \<Rightarrow> timestamp \<Rightarrow> database" where
  "step db (Create_product pc) now =
     (if ProductCreate_valid pc then close (snd (create_product (get_db db) pc now)) else db)"
| "step db (Update_product product_id pc) now =
     (if ProductCreate_valid pc then close (snd (update_product (get_db db) product_id pc now)) else db)"
| "step db (Delete_product product_id) now = close (snd (delete_product (get_db db) product_id now))"
| "step db (Serve_meal meal_serving user_id) now =
     close (snd (serve_meal (get_db db) meal_serving user_id now))"

fun run :: "database \<Rightarrow> (operation \<times> timestamp) list \<Rightarrow> database" where
  "run db [] = db"
| "run db ((operation, now) # rest) = run (step db operation now) rest"


section \<open>Discrepancy rate (app/tasks.py, calculate\_discrepancy\_rate)\<close>

text \<open>
  \<^verbatim>\<open>get_portion_estimates\<close> is declared \<^verbatim>\<open>async def\<close>: a call returns a coroutine
  object and runs nothing; the body runs when the object is awaited, as the handler
  \<^verbatim>\<open>get_portion_estimates_endpoint\<close> does. A coroutine object is not iterable:
  \<^verbatim>\<open>for p in\<close> over one raises \<^verbatim>\<open>TypeError\<close>.
\<close>

datatype 'a py_object = Coroutine "error + 'a list" | PyList "'a list"

fun await :: "'a py_object \<Rightarrow> error + 'a list" where
  "await (Coroutine body) = body"
| "await (PyList xs) = Inl TypeError"

fun iter :: "'a py_object \<Rightarrow> error + 'a list" where
  "iter (Coroutine body) = Inl TypeError"
| "iter (PyList xs) = Inr xs"

definition get_portion_estimates_endpoint :: "database \<Rightarrow> error + PortionEstimate list" where
  "get_portion_estimates_endpoint db = await (Coroutine (get_portion_estimates db))"

record discrepancy =
  d_start_date :: timestamp
  d_end_date :: timestamp
  d_servings :: nat
  d_potential_portions :: int
  d_discrepancy_rate :: real

text \<open>
  \<^verbatim>\<open>((potential_portions - servings_count) / potential_portions * 100)
  if potential_portions > 0 else 0\<close>
\<close>

definition discrepancy_rate :: "int \<Rightarrow> nat \<Rightarrow> real" where
  "discrepancy_rate potential_portions servings_count =
     (if potential_portions > 0 then
        float_mul
          (double_round (of_int (potential_portions - int servings_count) / of_int potential_portions))
          100
      else 0)"

text \<open>
  The task, called from synchronous code: \<^verbatim>\<open>get_portion_estimates(db)\<close> is not awaited
  and its result is iterated by \<^verbatim>\<open>sum(p["portions"] for p in ...)\<close>. Any exception is
  caught and raised again as \<^verbatim>\<open>Exception("Failed to calculate discrepancy rate: ...")\<close>.
  The window is the last 30 days, in seconds.
\<close>

definition calculate_discrepancy_rate :: "database \<Rightarrow> timestamp \<Rightarrow> error + discrepancy" where
  "calculate_discrepancy_rate db now =
     (let end_date = now;
          start_date = end_date - 30 * 86400;
          servings = filter (\<lambda>s. start_date \<le> ms_timestamp s \<and> ms_timestamp s \<le> end_date)
                       (meal_servings db);
          servings_count = length servings
      in case iter (Coroutine (get_portion_estimates db)) of
           Inl e \<Rightarrow> Inl (Exception ''Failed to calculate discrepancy rate: '' e)
         | Inr estimates \<Rightarrow>
             let potential_portions = sum_list (map pe_portions estimates)
             in Inr \<lparr>d_start_date = start_date, d_end_date = end_date,
                     d_servings = servings_count, d_potential_portions = potential_portions,
                     d_discrepancy_rate = discrepancy_rate potential_portions servings_count\<rparr>)"

section \<open>Example stores\<close>

text \<open>
  The store of the specification's examples: Milk (100 in stock) and Flour (30), the meal
  Breakfast of 50 Milk and 20 Flour, and a meal without ingredients.
\<close>

definition kitchen :: database where
  "kitchen =
     \<lparr>products =
        [\<lparr>p_id = 1, p_name = ''Milk'', p_quantity = 100, p_delivery_date = None, p_threshold = 10\<rparr>,
         \<lparr>p_id = 2, p_name = ''Flour'', p_quantity = 30, p_delivery_date = None, p_threshold = 10\<rparr>],
      meals = [\<lparr>m_id = 1, m_name = ''Breakfast''\<rparr>, \<lparr>m_id = 2, m_name = ''EmptyMeal''\<rparr>],
      meal_ingredients =
        [\<lparr>mi_meal_id = 1, mi_product_id = 1, mi_quantity = 50\<rparr>,
         \<lparr>mi_meal_id = 1, mi_product_id = 2, mi_quantity = 20\<rparr>],
      meal_servings = [], inventory_logs = []\<rparr>"

text \<open>A store whose only meal has one ingredient, of a product that is not there.\<close>

definition dangling :: database where
  "dangling =
     \<lparr>products = [],
      meals = [\<lparr>m_id = 1, m_name = ''Breakfast''\<rparr>],
      meal_ingredients = [\<lparr>mi_meal_id = 1, mi_product_id = 7, mi_quantity = 50\<rparr>],
      meal_servings = [], inventory_logs = []\<rparr>"

text \<open>The kitchen after one Breakfast: 50 Milk and 10 Flour are left.\<close>

definition scarce :: database where
  "scarce = kitchen\<lparr>products :=
        [\<lparr>p_id = 1, p_name = ''Milk'', p_quantity = 50, p_delivery_date = None, p_threshold = 10\<rparr>,
         \<lparr>p_id = 2, p_name = ''Flour'', p_quantity = 10, p_delivery_date = None, p_threshold = 10\<rparr>]\<rparr>"

text \<open>
  Oats, 100 in stock, and a meal that takes 0.1 of it: the double nearest to 0.1, which
  is a little above it.
\<close>

definition pantry :: database where
  "pantry =
     \<lparr>products =
        [\<lparr>p_id = 1, p_name = ''Oats'', p_quantity = 100, p_delivery_date = None, p_threshold = 10\<rparr>],
      meals = [\<lparr>m_id = 1, m_name = ''Porridge''\<rparr>],
      meal_ingredients =
        [\<lparr>mi_meal_id = 1, mi_product_id = 1,
          mi_quantity = 3602879701896397 / 36028797018963968\<rparr>],
      meal_servings = [], inventory_logs = []\<rparr>"

text \<open>Grain, 1e16 in stock, and a meal that takes 1 of it.\<close>

definition silo :: database where
  "silo =
     \<lparr>products =
        [\<lparr>p_id = 1, p_name = ''Grain'', p_quantity = 10000000000000000, p_delivery_date = None,
          p_threshold = 10\<rparr>],
      meals = [\<lparr>m_id = 1, m_name = ''Gruel''\<rparr>],
      meal_ingredients = [\<lparr>mi_meal_id = 1, mi_product_id = 1, mi_quantity = 1\<rparr>],
      meal_servings = [], inventory_logs = []\<rparr>"


section \<open>Properties of the double-precision arithmetic\<close>

text \<open>Unfolding one step of \<open>scale\<close> at a numeral, for evaluation.\<close>

lemma scale_numeral:
  "scale (numeral k) y e =
     (if 2 ^ 53 \<le> y then scale (pred_numeral k) (y / 2) (e + 1)
      else if y < 2 ^ 52 \<and> - 1074 < e then scale (pred_numeral k) (y * 2) (e - 1)
      else (y, e))"
  by (simp add: numeral_eq_Suc)

lemmas double_eval =
  double_round_def round_magnitude_def scale_numeral round_half_even_def pow2_def Let_def


lemma scale_zero: "fst (scale fuel 0 e) = 0"
  by (induction fuel arbitrary: e) auto


lemma round_half_even_zero: "round_half_even 0 = 0"
  by (simp add: round_half_even_def)




lemma double_round_zero: "double_round 0 = 0"
proof -
  obtain m e where s: "scale 2200 0 0 = (m, e)" by force
  with scale_zero[of 2200 0] have "m = 0" by simp
  with s show ?thesis by (simp add: double_round_def round_magnitude_def round_half_even_zero)
qed


lemma double_round_2: "double_round 2 = 2" by (simp add: double_eval)
lemma double_round_10: "double_round 10 = 10" by (simp add: double_eval)
lemma double_round_50: "double_round 50 = 50" by (simp add: double_eval)
lemma double_round_3_2: "double_round (3 / 2) = 3 / 2" by (simp add: double_eval)

section \<open>Properties of the portion estimates\<close>

lemma portions_loop_skip:
  "portions_loop db ings acc = portions_loop db (filter (has_product db) ings) acc"
  by (induction ings arbitrary: acc) (auto simp: has_product_def split: option.splits sum.splits)

lemma portions_loop_all_missing:
  "\<forall>i\<in>set ings. select_product db (mi_product_id i) = None \<Longrightarrow>
   portions_loop db ings acc = Inr acc"
  by (induction ings arbitrary: acc) auto

lemma int_of_error: "int_of x = Inl e \<Longrightarrow> e = OverflowError"
  by (cases x) auto

lemma py_floor_error: "py_floor q = Inl e \<Longrightarrow> e = OverflowError"
  by (cases q) auto

lemma avail_error: "avail p i = Inl e \<Longrightarrow> e = OverflowError"
  by (auto simp: avail_def float_truediv_def Let_def split: if_splits sum.splits
      dest: py_floor_error)

lemma portions_loop_error: "portions_loop db ings acc = Inl e \<Longrightarrow> e = OverflowError"
  by (induction ings arbitrary: acc) (auto split: option.splits sum.splits dest: avail_error)

lemma estimate_meal_error: "estimate_meal db m = Inl e \<Longrightarrow> e = OverflowError"
  by (auto simp: estimate_meal_def Let_def split: if_splits sum.splits
      dest: int_of_error portions_loop_error)

lemma estimates_loop_raises:
  "m \<in> set ms \<Longrightarrow> estimate_meal db m = Inl e \<Longrightarrow> estimates_loop db ms acc = Inl OverflowError"
  by (induction ms arbitrary: acc) (auto split: sum.splits dest: estimate_meal_error)

lemma float_truediv_zero: "float_truediv x 0 = Inl ZeroDivisionError"
  by (simp add: float_truediv_def)

lemma avail_no_positive_quantity: "mi_quantity i \<le> 0 \<Longrightarrow> avail p i = Inr 0"
  by (simp add: avail_def)

lemma avail_ratio:
  "select_product db (mi_product_id i) = Some p \<Longrightarrow> finite_quotient db i \<Longrightarrow>
   avail p i = Inr (ratio db i)"
  by (auto simp: avail_def ratio_def finite_quotient_def double_quotient_def float_truediv_def
        Let_def)

lemma py_min_Int_val: "py_min (Int_val a) x = Int_val (min a x)"
  by (simp add: min_def)

lemma Min_insert_min:
  "finite S \<Longrightarrow> Min (insert (min a x) S) = Min (insert a (insert (x::int) S))"
  by (cases "S = {}") (auto simp: min.assoc)

lemma portions_loop_Int_val:
  "list_all (finite_quotient db) (filter (has_product db) ings) \<Longrightarrow>
   portions_loop db ings (Int_val a) =
   Inr (Int_val (Min (insert a (ratio db ` set (filter (has_product db) ings)))))"
proof (induction ings arbitrary: a)
  case Nil
  then show ?case by simp
next
  case (Cons i ings)
  show ?case
  proof (cases "select_product db (mi_product_id i)")
    case None
    with Cons show ?thesis by (simp add: has_product_def)
  next
    case (Some p)
    with Cons.prems have fin: "finite_quotient db i"
      and rest: "list_all (finite_quotient db) (filter (has_product db) ings)"
      by (simp_all add: has_product_def[of db i])
    from Some fin have "portions_loop db (i # ings) (Int_val a) =
               portions_loop db ings (Int_val (min a (ratio db i)))"
      by (simp add: py_min_Int_val avail_ratio del: py_min.simps)
    also have "\<dots> = Inr (Int_val (Min (insert (min a (ratio db i))
                                (ratio db ` set (filter (has_product db) ings)))))"
      using rest by (rule Cons.IH)
    also have "\<dots> = Inr (Int_val (Min (insert a (insert (ratio db i)
                                (ratio db ` set (filter (has_product db) ings))))))"
      by (simp only: Min_insert_min[OF finite_imageI[OF finite_set]])
    finally show ?thesis using Some by (simp add: has_product_def[of db i] del: Min_insert)
  qed
qed

lemma portions_loop_Float_inf:
  "filter (has_product db) ings \<noteq> [] \<Longrightarrow>
   list_all (finite_quotient db) (filter (has_product db) ings) \<Longrightarrow>
   portions_loop db ings Float_inf =
   Inr (Int_val (Min (ratio db ` set (filter (has_product db) ings))))"
proof (induction ings)
  case Nil
  then show ?case by simp
next
  case (Cons i ings)
  show ?case
  proof (cases "select_product db (mi_product_id i)")
    case None
    with Cons show ?thesis by (simp add: has_product_def)
  next
    case (Some p)
    with Cons.prems(2) have fin: "finite_quotient db i"
      and rest: "list_all (finite_quotient db) (filter (has_product db) ings)"
      by (simp_all add: has_product_def[of db i])
    from Some fin rest show ?thesis
      by (simp add: has_product_def[of db i] portions_loop_Int_val avail_ratio del: Min_insert)
  qed
qed

lemma estimate_meal_min_ratio:
  "select_ingredients db (m_id meal) = [] \<or>
   filter (has_product db) (select_ingredients db (m_id meal)) \<noteq> [] \<and>
   list_all (finite_quotient db) (filter (has_product db) (select_ingredients db (m_id meal))) \<Longrightarrow>
   estimate_meal db meal = Inr (min_ratio_estimate db meal)"
  by (auto simp: estimate_meal_def min_ratio_estimate_def Let_def portions_loop_Float_inf
           simp del: Min_insert)

lemma estimates_loop_map:
  "\<forall>meal\<in>set ms. estimate_meal db meal = Inr (f meal) \<Longrightarrow>
   estimates_loop db ms acc = Inr (acc @ map f ms)"
  by (induction ms arbitrary: acc) auto

text \<open>
  The quotient of doubles at three inputs: \<^verbatim>\<open>floor(0.3 / 0.1)\<close> is 2, the doubles
  nearest to 0.3 and 0.1 having a quotient just below 3, and \<^verbatim>\<open>1e308 / 0.001\<close>
  overflows, so that \<^verbatim>\<open>floor\<close> raises although the product exists.
\<close>

lemma double_round_tenth: "double_round (1 / 10) = 3602879701896397 / 36028797018963968"
  by (simp add: double_eval)

lemma double_round_three_tenths: "double_round (3 / 10) = 5404319552844595 / 18014398509481984"
  by (simp add: double_eval)

lemma avail_three_tenths:
  "avail \<lparr>p_id = 1, p_name = ''Oats'', p_quantity = double_round (3 / 10), p_delivery_date = None,
          p_threshold = 0\<rparr>
         \<lparr>mi_meal_id = 1, mi_product_id = 1, mi_quantity = double_round (1 / 10)\<rparr> = Inr 2"
  by (simp add: avail_def float_truediv_def double_round_tenth double_round_three_tenths double_eval)

lemma double_round_thousandth: "double_round (1 / 1000) = 1152921504606847 / 1152921504606846976"
  by (simp add: double_eval)

lemma avail_overflow:
  "avail \<lparr>p_id = 1, p_name = ''Oats'', p_quantity = double_round (10 ^ 308), p_delivery_date = None,
          p_threshold = 0\<rparr>
         \<lparr>mi_meal_id = 1, mi_product_id = 1, mi_quantity = double_round (1 / 1000)\<rparr> =
   Inl OverflowError"
  by (simp add: avail_def float_truediv_def double_round_thousandth double_eval)

text \<open>
  C2, as the code has it. When every meal either has no ingredient, or has at least one
  ingredient whose product is in the store and no quotient of such an ingredient
  overflows, \<open>get_portion_estimates\<close> returns one record per meal, in order, with the
  meal's id and name and an integer: 0 for a meal without ingredients, otherwise the
  minimum, over the ingredients whose product exists, of the floor of the double-precision
  quotient \<open>product.quantity / ingredient.quantity\<close> (the exact quotient rounded to the
  nearest double), where an ingredient of quantity 0 (or below) counts 0 and nothing is
  divided by zero.
\<close>

theorem get_portion_estimates_min_ratio:
  assumes "\<forall>meal\<in>set (meals db).
             select_ingredients db (m_id meal) = [] \<or>
             filter (has_product db) (select_ingredients db (m_id meal)) \<noteq> [] \<and>
             list_all (finite_quotient db)
               (filter (has_product db) (select_ingredients db (m_id meal)))"
  shows "get_portion_estimates db = Inr (map (min_ratio_estimate db) (meals db))"
  using estimates_loop_map[of "meals db" db "min_ratio_estimate db" "[]"] assms
  by (simp add: get_portion_estimates_def estimate_meal_min_ratio)

text \<open>
  The example of the specification: 50 Milk of 100 and 20 Flour of 30 give
  \<open>min (floor (100/50)) (floor (30/20)) = 1\<close>; the meal without ingredients gives 0.
\<close>

theorem get_portion_estimates_min_ratio_witness:
  "list_all (\<lambda>meal. select_ingredients kitchen (m_id meal) = [] \<or>
               filter (has_product kitchen) (select_ingredients kitchen (m_id meal)) \<noteq> [] \<and>
               list_all (finite_quotient kitchen)
                 (filter (has_product kitchen) (select_ingredients kitchen (m_id meal))))
     (meals kitchen) \<and>
   get_portion_estimates kitchen =
     Inr [\<lparr>pe_meal_id = 1, pe_name = ''Breakfast'', pe_portions = 1\<rparr>,
          \<lparr>pe_meal_id = 2, pe_name = ''EmptyMeal'', pe_portions = 0\<rparr>]"
  using get_portion_estimates_min_ratio[of kitchen]
  by (simp add: kitchen_def select_ingredients_def has_product_def select_product_def
        min_ratio_estimate_def ratio_def finite_quotient_def double_quotient_def
        double_round_2 double_round_3_2)

text \<open>The quotient of 100 by the double nearest to 0.1, as simplified, rounds to 1000.\<close>

lemma double_round_pantry:
  "double_round (3602879701896396800 / 3602879701896397) = 1000"
  by (simp add: double_eval)

text \<open>
  C2 as stated fails: with 100 Oats in stock and a meal that takes 0.1 of it (the double
  nearest to 0.1, which is a little above it) the estimate returned is 1000, while the
  floor of the quotient of the two stored quantities is 999: the quotient of doubles has
  been rounded to 1000 before the floor is taken.
\<close>

theorem get_portion_estimates_rounds_counterexample:
  "get_portion_estimates pantry =
     Inr [\<lparr>pe_meal_id = 1, pe_name = ''Porridge'', pe_portions = 1000\<rparr>] \<and>
   \<lfloor>(100::real) / (3602879701896397 / 36028797018963968)\<rfloor> = 999"
  by (simp add: pantry_def get_portion_estimates_def estimate_meal_def select_ingredients_def
        select_product_def avail_def float_truediv_def double_round_pantry Let_def)

text \<open>
  C10. The loop passes over an ingredient whose product does not exist: it gives the
  same result as on the ingredients whose product exists alone. So for a meal of the
  store with at least one ingredient and no ingredient of an existing product the
  accumulator is still \<^verbatim>\<open>float("inf")\<close> after the loop, \<^verbatim>\<open>int(portions)\<close> raises
  \<^verbatim>\<open>OverflowError\<close>, and the whole call raises it instead of returning estimates.
\<close>

theorem missing_products_skipped_overflow:
  assumes "meal \<in> set (meals db)"
    and "select_ingredients db (m_id meal) \<noteq> []"
    and "\<forall>i\<in>set (select_ingredients db (m_id meal)). select_product db (mi_product_id i) = None"
  shows "(\<forall>ings acc. portions_loop db ings acc =
                      portions_loop db (filter (has_product db) ings) acc) \<and>
         portions_loop db (select_ingredients db (m_id meal)) Float_inf = Inr Float_inf \<and>
         estimate_meal db meal = Inl OverflowError \<and>
         get_portion_estimates db = Inl OverflowError"
proof -
  have skip: "\<forall>ings acc. portions_loop db ings acc =
                portions_loop db (filter (has_product db) ings) acc"
    using portions_loop_skip by blast
  have acc: "portions_loop db (select_ingredients db (m_id meal)) Float_inf = Inr Float_inf"
    using assms(3) by (rule portions_loop_all_missing)
  have one: "estimate_meal db meal = Inl OverflowError"
    using assms(2) acc by (simp add: estimate_meal_def)
  have "get_portion_estimates db = Inl OverflowError"
    unfolding get_portion_estimates_def using assms(1) one by (rule estimates_loop_raises)
  with skip acc one show ?thesis by blast
qed

theorem missing_products_skipped_overflow_witness:
  "\<lparr>m_id = 1, m_name = ''Breakfast''\<rparr> \<in> set (meals dangling) \<and>
   select_ingredients dangling 1 \<noteq> [] \<and>
   list_all (\<lambda>i. select_product dangling (mi_product_id i) = None)
     (select_ingredients dangling 1) \<and>
   portions_loop dangling (select_ingredients dangling 1) Float_inf = Inr Float_inf \<and>
   estimate_meal dangling \<lparr>m_id = 1, m_name = ''Breakfast''\<rparr> = Inl OverflowError \<and>
   get_portion_estimates dangling = Inl OverflowError"
  using missing_products_skipped_overflow[of "\<lparr>m_id = 1, m_name = ''Breakfast''\<rparr>" dangling]
  by (simp add: dangling_def select_ingredients_def select_product_def)

section \<open>Properties of serving a meal\<close>

lemma find_update_first_same:
  "(\<And>x. p_id (f x) = p_id x) \<Longrightarrow>
   find (\<lambda>p. p_id p = a) (update_first (\<lambda>p. p_id p = a) f xs) = map_option f (find (\<lambda>p. p_id p = a) xs)"
  by (induction xs) auto

lemma find_update_first_other:
  "(\<And>x. p_id (f x) = p_id x) \<Longrightarrow> a \<noteq> b \<Longrightarrow>
   find (\<lambda>p. p_id p = a) (update_first (\<lambda>p. p_id p = b) f xs) = find (\<lambda>p. p_id p = a) xs"
  by (induction xs) auto


lemma map_p_id_update_first:
  "(\<And>x. p_id (f x) = p_id x) \<Longrightarrow> map p_id (update_first Q f xs) = map p_id xs"
  by (induction xs) auto

lemma serve_ingredient_fails:
  "(\<exists>e. serve_ingredient i uid now w = Inl e) \<longleftrightarrow> insufficient (working w) i"
  by (auto simp: serve_ingredient_def insufficient_def Let_def split: option.splits)

lemma serve_ingredient_error:
  "serve_ingredient i uid now w = Inl e \<Longrightarrow>
   \<exists>name. e = HTTPException 400 (''Insufficient quantity for '' @ name)"
  by (auto simp: serve_ingredient_def Let_def split: option.splits if_splits)

lemma serve_ingredient_frame:
  "serve_ingredient i uid now w = Inr w1 \<Longrightarrow>
   committed w1 = committed w \<and>
   meals (working w1) = meals (working w) \<and>
   meal_ingredients (working w1) = meal_ingredients (working w) \<and>
   meal_servings (working w1) = meal_servings (working w)"
  by (auto simp: serve_ingredient_def Let_def add_log_def publish_def split: option.splits if_splits)

lemma serve_ingredient_trace:
  "serve_ingredient i uid now w = Inr w1 \<Longrightarrow> trace w1 = trace w @ [notification i]"
  by (auto simp: serve_ingredient_def Let_def add_log_def publish_def notification_def
      split: option.splits if_splits)

lemma serve_ingredient_log:
  "serve_ingredient i uid now w = Inr w1 \<Longrightarrow>
   \<exists>l. inventory_logs (working w1) = inventory_logs (working w) @ [l] \<and> consumption_of uid now l i"
  by (auto simp: serve_ingredient_def Let_def add_log_def publish_def new_log_def consumption_of_def
      split: option.splits if_splits)

lemma serve_ingredient_product:
  assumes "serve_ingredient i uid now w = Inr w1"
  shows "select_product (working w1) pid =
           (if pid = mi_product_id i
            then map_option (\<lambda>p. p\<lparr>p_quantity := float_sub (p_quantity p) (mi_quantity i)\<rparr>)
                   (select_product (working w) pid)
            else select_product (working w) pid)"
  using assms
  by (auto simp: serve_ingredient_def Let_def add_log_def publish_def select_product_def
        find_update_first_same find_update_first_other
      split: option.splits if_splits)



lemma serve_ingredients_frame:
  "serve_ingredients ings uid now w = (r, w') \<Longrightarrow>
   committed w' = committed w \<and>
   meals (working w') = meals (working w) \<and>
   meal_ingredients (working w') = meal_ingredients (working w) \<and>
   meal_servings (working w') = meal_servings (working w)"
proof (induction ings arbitrary: w)
  case Nil
  then show ?case by simp
next
  case (Cons i ings)
  show ?case
  proof (cases "serve_ingredient i uid now w")
    case (Inl e)
    with Cons.prems show ?thesis by simp
  next
    case (Inr w1)
    with Cons.prems have "serve_ingredients ings uid now w1 = (r, w')" by simp
    from Cons.IH[OF this] serve_ingredient_frame[OF Inr] show ?thesis by simp
  qed
qed


lemma insufficient_after:
  assumes "serve_ingredient i uid now w = Inr w1" and "mi_product_id j \<noteq> mi_product_id i"
  shows "insufficient (working w1) j = insufficient (working w) j"
  using assms by (simp add: insufficient_def serve_ingredient_product)

lemma serve_ingredients_distinct:
  "distinct (map mi_product_id ings) \<Longrightarrow> serve_ingredients ings uid now w = (r, w') \<Longrightarrow>
   trace w' = trace w @ map notification (takeWhile (\<lambda>i. \<not> insufficient (working w) i) ings) \<and>
   (r = None \<longleftrightarrow> (\<forall>i\<in>set ings. \<not> insufficient (working w) i)) \<and>
   (\<forall>e. r = Some e \<longrightarrow> (\<exists>name. e = HTTPException 400 (''Insufficient quantity for '' @ name)))"
proof (induction ings arbitrary: w)
  case Nil
  then show ?case by auto
next
  case (Cons i ings)
  show ?case
  proof (cases "serve_ingredient i uid now w")
    case (Inl e)
    then have "insufficient (working w) i" using serve_ingredient_fails by blast
    with Inl Cons.prems serve_ingredient_error[OF Inl] show ?thesis by auto
  next
    case (Inr w1)
    then have ok: "\<not> insufficient (working w) i" using serve_ingredient_fails[of i uid now w] by simp
    from Inr Cons.prems have run: "serve_ingredients ings uid now w1 = (r, w')" by simp
    from Cons.prems have d: "distinct (map mi_product_id ings)" by simp
    have same: "\<And>j. j \<in> set ings \<Longrightarrow> insufficient (working w1) j = insufficient (working w) j"
    proof (rule insufficient_after[OF Inr])
      fix j assume "j \<in> set ings"
      then have "mi_product_id j \<in> mi_product_id ` set ings" by (rule imageI)
      with Cons.prems(1) show "mi_product_id j \<noteq> mi_product_id i" by auto
    qed
    then have tw: "takeWhile (\<lambda>i. \<not> insufficient (working w1) i) ings =
                   takeWhile (\<lambda>i. \<not> insufficient (working w) i) ings"
      by (intro takeWhile_cong) auto
    from Cons.IH[OF d run] serve_ingredient_trace[OF Inr] ok same tw show ?thesis by auto
  qed
qed

lemma serve_ingredients_logs:
  "serve_ingredients ings uid now w = (None, w') \<Longrightarrow>
   \<exists>ls. inventory_logs (working w') = inventory_logs (working w) @ ls \<and>
        list_all2 (consumption_of uid now) ls ings"
proof (induction ings arbitrary: w)
  case Nil
  then show ?case by simp
next
  case (Cons i ings)
  show ?case
  proof (cases "serve_ingredient i uid now w")
    case (Inl e)
    with Cons.prems show ?thesis by simp
  next
    case (Inr w1)
    with Cons.prems have run: "serve_ingredients ings uid now w1 = (None, w')" by simp
    from Cons.IH[OF run] obtain ls where
      ls: "inventory_logs (working w') = inventory_logs (working w1) @ ls"
          "list_all2 (consumption_of uid now) ls ings"
      by blast
    from serve_ingredient_log[OF Inr] obtain l where
      l: "inventory_logs (working w1) = inventory_logs (working w) @ [l]" "consumption_of uid now l i"
      by blast
    show ?thesis using ls l by (intro exI[of _ "l # ls"]) simp
  qed
qed

lemma find_absent_key: "k \<notin> f ` set xs \<Longrightarrow> find (\<lambda>y. f y = k) xs = None"
  by (auto simp: find_None_iff)

lemma find_distinct_key:
  "distinct (map f xs) \<Longrightarrow> x \<in> set xs \<Longrightarrow> find (\<lambda>y. f y = f x) xs = Some x"
  by (induction xs) (auto simp: image_iff)

lemma serve_ingredients_products:
  "distinct (map mi_product_id ings) \<Longrightarrow> serve_ingredients ings uid now w = (None, w') \<Longrightarrow>
   select_product (working w') pid =
     (case find (\<lambda>i. mi_product_id i = pid) ings of
        None \<Rightarrow> select_product (working w) pid
      | Some i \<Rightarrow> map_option (\<lambda>p. p\<lparr>p_quantity := float_sub (p_quantity p) (mi_quantity i)\<rparr>)
                   (select_product (working w) pid))"
proof (induction ings arbitrary: w)
  case Nil
  then show ?case by simp
next
  case (Cons i ings)
  show ?case
  proof (cases "serve_ingredient i uid now w")
    case (Inl e)
    with Cons.prems show ?thesis by simp
  next
    case (Inr w1)
    with Cons.prems have run: "serve_ingredients ings uid now w1 = (None, w')" by simp
    from Cons.prems(1) have d: "distinct (map mi_product_id ings)"
      and fresh: "mi_product_id i \<notin> mi_product_id ` set ings"
      by simp_all
    note ih = Cons.IH[OF d run]
    show ?thesis
    proof (cases "pid = mi_product_id i")
      case True
      with fresh have "find (\<lambda>j. mi_product_id j = pid) ings = None"
        by (simp add: find_absent_key)
      with ih True show ?thesis by (simp add: serve_ingredient_product[OF Inr])
    next
      case False
      with ih show ?thesis
        by (simp add: serve_ingredient_product[OF Inr] split: option.splits)
    qed
  qed
qed

lemma serve_meal_cases:
  assumes "serve_meal w ms uid now = (r, w')"
  obtains
    (empty) "select_ingredients (working w) (msc_meal_id ms) = []"
            "r = Inl (HTTPException 404 ''Meal has no ingredients defined'')" "w' = w"
  | (abort) e where "select_ingredients (working w) (msc_meal_id ms) \<noteq> []"
            "serve_ingredients (select_ingredients (working w) (msc_meal_id ms)) uid now w = (Some e, w')"
            "r = Inl e"
  | (commit) w1 where "select_ingredients (working w) (msc_meal_id ms) \<noteq> []"
            "serve_ingredients (select_ingredients (working w) (msc_meal_id ms)) uid now w = (None, w1)"
            "r = Inr \<lparr>ms_id = next_id (map ms_id (meal_servings (working w1))),
                      ms_meal_id = msc_meal_id ms, ms_user_id = uid, ms_timestamp = now\<rparr>"
            "w' = db_commit (w1\<lparr>working := (working w1)\<lparr>meal_servings := meal_servings (working w1) @
                 [\<lparr>ms_id = next_id (map ms_id (meal_servings (working w1))),
                      ms_meal_id = msc_meal_id ms, ms_user_id = uid, ms_timestamp = now\<rparr>]\<rparr>\<rparr>)"
  using assms
  by (auto simp: serve_meal_def Let_def split: if_splits prod.splits option.splits)

lemma serve_ingredients_no_commit:
  "serve_ingredients ings uid now w = (r, w') \<Longrightarrow> Commit \<notin> set (trace w) \<Longrightarrow>
   Commit \<notin> set (trace w')"
proof (induction ings arbitrary: w)
  case Nil
  then show ?case by simp
next
  case (Cons i ings)
  show ?case
  proof (cases "serve_ingredient i uid now w")
    case (Inl e)
    with Cons.prems show ?thesis by simp
  next
    case (Inr w1)
    with Cons.prems have run: "serve_ingredients ings uid now w1 = (r, w')" by simp
    from serve_ingredient_trace[OF Inr] Cons.prems(2)
    have "Commit \<notin> set (trace w1)" by (simp add: notification_def)
    with Cons.IH[OF run] show ?thesis by simp
  qed
qed

text \<open>
  C1. \<^verbatim>\<open>serve_meal\<close> is all-or-nothing. Whenever the call raises, nothing has been
  committed and the store the closed session leaves is the store before the call: no
  quantity has changed, no ledger entry and no serving has been written, whatever was
  done in the session for earlier ingredients. And the call does raise, with the 400
  "Insufficient quantity for ..." exception, if the product of any ingredient of the
  meal is missing or has less in stock than the ingredient needs; here the ingredient
  rows of the meal have distinct products, as the primary key
  \<^verbatim>\<open>(meal_id, product_id)\<close> of \<^verbatim>\<open>meal_ingredients\<close> makes them.
\<close>

theorem serve_meal_all_or_nothing:
  assumes "serve_meal (get_db db) ms uid now = (r, w')"
  shows "(\<forall>e. r = Inl e \<longrightarrow> close w' = db \<and> Commit \<notin> set (trace w')) \<and>
         (distinct (map mi_product_id (select_ingredients db (msc_meal_id ms))) \<longrightarrow>
          (\<exists>i\<in>set (select_ingredients db (msc_meal_id ms)). insufficient db i) \<longrightarrow>
          (\<exists>name. r = Inl (HTTPException 400 (''Insufficient quantity for '' @ name))))"
proof -
  have wk: "working (get_db db) = db" "committed (get_db db) = db" "trace (get_db db) = []"
    by (simp_all add: get_db_def)
  from assms show ?thesis
  proof (cases rule: serve_meal_cases)
    case empty
    with wk show ?thesis by (simp add: close_def)
  next
    case (abort e)
    from serve_ingredients_frame[OF abort(2)] wk have "close w' = db" by (simp add: close_def)
    moreover from serve_ingredients_no_commit[OF abort(2)] wk
    have "Commit \<notin> set (trace w')" by simp
    moreover have "\<exists>name. r = Inl (HTTPException 400 (''Insufficient quantity for '' @ name))"
      if "distinct (map mi_product_id (select_ingredients db (msc_meal_id ms)))"
      using serve_ingredients_distinct[OF _ abort(2)] that wk abort(3) by auto
    ultimately show ?thesis by blast
  next
    case (commit w1)
    have "\<not> (\<exists>i\<in>set (select_ingredients db (msc_meal_id ms)). insufficient db i)"
      if "distinct (map mi_product_id (select_ingredients db (msc_meal_id ms)))"
      using serve_ingredients_distinct[OF _ commit(2)] that wk by auto
    with commit(3) show ?thesis by auto
  qed
qed

text \<open>
  The second serving of the specification's example: 50 Milk is enough, 10 Flour is
  not, and the decrement of the Milk is not kept.
\<close>

theorem serve_meal_all_or_nothing_witness:
  "(\<exists>name. fst (serve_meal (get_db scarce) \<lparr>msc_meal_id = 1\<rparr> 2 0) =
             Inl (HTTPException 400 (''Insufficient quantity for '' @ name))) \<and>
   close (snd (serve_meal (get_db scarce) \<lparr>msc_meal_id = 1\<rparr> 2 0)) = scarce \<and>
   Commit \<notin> set (trace (snd (serve_meal (get_db scarce) \<lparr>msc_meal_id = 1\<rparr> 2 0)))"
proof -
  have d: "distinct (map mi_product_id (select_ingredients scarce (msc_meal_id \<lparr>msc_meal_id = 1\<rparr>)))"
    by (simp add: scarce_def kitchen_def select_ingredients_def)
  have i: "\<exists>i\<in>set (select_ingredients scarce (msc_meal_id \<lparr>msc_meal_id = 1\<rparr>)). insufficient scarce i"
    by (simp add: scarce_def kitchen_def select_ingredients_def insufficient_def select_product_def)
  have r: "serve_meal (get_db scarce) \<lparr>msc_meal_id = 1\<rparr> 2 0 =
             (fst (serve_meal (get_db scarce) \<lparr>msc_meal_id = 1\<rparr> 2 0),
              snd (serve_meal (get_db scarce) \<lparr>msc_meal_id = 1\<rparr> 2 0))"
    by simp
  from serve_meal_all_or_nothing[OF r] d i show ?thesis by blast
qed

text \<open>
  C6, as the code has it. A call of \<^verbatim>\<open>serve_meal\<close> that returns (the ingredient rows
  of the meal having distinct products, as their primary key makes them, and quantities
  that are not negative, as \<^verbatim>\<open>Field(ge=0)\<close> of the request schema makes them, so that
  no difference overflows): the quantity
  of the product of every ingredient has become the double-precision difference between
  what it was and that ingredient's quantity, that is the double nearest to the exact
  difference, and every other product is as it was; the ledger has grown by one
  consumption entry per ingredient, in order, with the ingredient's product and quantity
  and the acting user; exactly one serving row has been added, with the given meal and
  user, and it is the value returned.
\<close>

theorem serve_meal_success:
  assumes "distinct (map mi_product_id (select_ingredients db (msc_meal_id ms)))"
    and "serve_meal (get_db db) ms uid now = (Inr serving, w')"
    and "list_all (\<lambda>i. 0 \<le> mi_quantity i) (select_ingredients db (msc_meal_id ms))"
  shows "(\<forall>i\<in>set (select_ingredients db (msc_meal_id ms)).
            \<exists>p. select_product db (mi_product_id i) = Some p \<and>
                select_product (close w') (mi_product_id i) =
                  Some (p\<lparr>p_quantity := float_sub (p_quantity p) (mi_quantity i)\<rparr>)) \<and>
         (\<forall>pid. pid \<notin> mi_product_id ` set (select_ingredients db (msc_meal_id ms)) \<longrightarrow>
            select_product (close w') pid = select_product db pid) \<and>
         (\<exists>ls. inventory_logs (close w') = inventory_logs db @ ls \<and>
               list_all2 (consumption_of uid now) ls (select_ingredients db (msc_meal_id ms))) \<and>
         meal_servings (close w') = meal_servings db @ [serving] \<and>
         ms_meal_id serving = msc_meal_id ms \<and> ms_user_id serving = uid"
proof -
  let ?ings = "select_ingredients db (msc_meal_id ms)"
  have wk: "working (get_db db) = db" "committed (get_db db) = db" "trace (get_db db) = []"
    by (simp_all add: get_db_def)
  from assms(2) show ?thesis
  proof (cases rule: serve_meal_cases)
    case empty
    then show ?thesis by simp
  next
    case (abort e)
    then show ?thesis by simp
  next
    case (commit w1)
    from commit(2) wk have loop: "serve_ingredients ?ings uid now (get_db db) = (None, w1)" by simp
    from serve_ingredients_distinct[OF _ loop] assms(1) wk
    have suff: "\<forall>i\<in>set ?ings. \<not> insufficient db i" by simp
    from serve_ingredients_logs[OF loop] wk obtain ls where
      ls: "inventory_logs (working w1) = inventory_logs db @ ls"
          "list_all2 (consumption_of uid now) ls ?ings"
      by auto
    have pr: "select_product (working w1) pid =
       (case find (\<lambda>i. mi_product_id i = pid) ?ings of
          None \<Rightarrow> select_product db pid
        | Some i \<Rightarrow> map_option (\<lambda>p. p\<lparr>p_quantity := float_sub (p_quantity p) (mi_quantity i)\<rparr>)
                     (select_product db pid))" for pid
      using serve_ingredients_products[OF assms(1) loop, of pid] unfolding wk .
    from serve_ingredients_frame[OF loop] wk
    have fr: "meal_servings (working w1) = meal_servings db" by simp
    have cl: "products (close w') = products (working w1)"
             "inventory_logs (close w') = inventory_logs (working w1)"
             "meal_servings (close w') = meal_servings (working w1) @ [serving]"
      using commit(3,4) by (simp_all add: close_def db_commit_def)
    have sel: "select_product (close w') pid = select_product (working w1) pid" for pid
      using cl(1) by (simp add: select_product_def)
    have a: "\<exists>p. select_product db (mi_product_id i) = Some p \<and>
                select_product (close w') (mi_product_id i) =
                  Some (p\<lparr>p_quantity := float_sub (p_quantity p) (mi_quantity i)\<rparr>)"
      if i: "i \<in> set ?ings" for i
    proof -
      from suff i obtain p where p: "select_product db (mi_product_id i) = Some p"
        by (auto simp: insufficient_def split: option.splits)
      have "find (\<lambda>j. mi_product_id j = mi_product_id i) ?ings = Some i"
        using assms(1) i by (rule find_distinct_key)
      with p show ?thesis by (simp add: sel pr)
    qed
    have b: "select_product (close w') pid = select_product db pid"
      if "pid \<notin> mi_product_id ` set ?ings" for pid
    proof -
      have "find (\<lambda>j. mi_product_id j = pid) ?ings = None"
        using that by (rule find_absent_key)
      then show ?thesis by (simp add: sel pr)
    qed
    have c: "\<exists>ls. inventory_logs (close w') = inventory_logs db @ ls \<and>
               list_all2 (consumption_of uid now) ls ?ings"
      using ls cl(2) by auto
    have d: "meal_servings (close w') = meal_servings db @ [serving]"
      using cl(3) fr by simp
    have e: "ms_meal_id serving = msc_meal_id ms \<and> ms_user_id serving = uid"
      using commit(3) by simp
    from a b c d e show ?thesis by blast
  qed
qed

text \<open>
  The first serving of the specification's example: Milk goes from 100 to 50, Flour from
  30 to 10 (both differences are doubles), one serving is written.
\<close>

theorem serve_meal_success_witness:
  "select_product (close (snd (serve_meal (get_db kitchen) \<lparr>msc_meal_id = 1\<rparr> 2 0))) 1 =
     Some \<lparr>p_id = 1, p_name = ''Milk'', p_quantity = 50, p_delivery_date = None, p_threshold = 10\<rparr> \<and>
   select_product (close (snd (serve_meal (get_db kitchen) \<lparr>msc_meal_id = 1\<rparr> 2 0))) 2 =
     Some \<lparr>p_id = 2, p_name = ''Flour'', p_quantity = 10, p_delivery_date = None, p_threshold = 10\<rparr> \<and>
   meal_servings (close (snd (serve_meal (get_db kitchen) \<lparr>msc_meal_id = 1\<rparr> 2 0))) =
     [\<lparr>ms_id = 1, ms_meal_id = 1, ms_user_id = 2, ms_timestamp = 0\<rparr>]"
proof -
  have d: "distinct (map mi_product_id (select_ingredients kitchen (msc_meal_id \<lparr>msc_meal_id = 1\<rparr>)))"
    by (simp add: kitchen_def select_ingredients_def)
  have r: "serve_meal (get_db kitchen) \<lparr>msc_meal_id = 1\<rparr> 2 0 =
             (Inr \<lparr>ms_id = 1, ms_meal_id = 1, ms_user_id = 2, ms_timestamp = 0\<rparr>,
              snd (serve_meal (get_db kitchen) \<lparr>msc_meal_id = 1\<rparr> 2 0))"
    by (simp add: serve_meal_def kitchen_def get_db_def select_ingredients_def
        serve_ingredient_def select_product_def add_log_def new_log_def publish_def Let_def
        db_commit_def next_id_def)
  have q: "list_all (\<lambda>i. 0 \<le> mi_quantity i)
             (select_ingredients kitchen (msc_meal_id \<lparr>msc_meal_id = 1\<rparr>))"
    by (simp add: kitchen_def select_ingredients_def)
  from serve_meal_success[OF d r q] show ?thesis
    by (simp add: kitchen_def select_ingredients_def select_product_def float_sub_def
        double_round_50 double_round_10)
qed

lemma double_round_silo: "double_round 9999999999999999 = 10000000000000000"
  by (simp add: double_eval)

text \<open>
  C6 as stated fails: with 1e16 Grain in stock and a meal that takes 1, the call returns
  a serving and the stock is 1e16 as before, not less by exactly 1: the double nearest to
  9999999999999999 is 1e16.
\<close>

theorem serve_meal_rounds_counterexample:
  "fst (serve_meal (get_db silo) \<lparr>msc_meal_id = 1\<rparr> 2 0) =
     Inr \<lparr>ms_id = 1, ms_meal_id = 1, ms_user_id = 2, ms_timestamp = 0\<rparr> \<and>
   select_product silo 1 =
     Some \<lparr>p_id = 1, p_name = ''Grain'', p_quantity = 10000000000000000, p_delivery_date = None,
           p_threshold = 10\<rparr> \<and>
   select_product (close (snd (serve_meal (get_db silo) \<lparr>msc_meal_id = 1\<rparr> 2 0))) 1 =
     Some \<lparr>p_id = 1, p_name = ''Grain'', p_quantity = 10000000000000000, p_delivery_date = None,
           p_threshold = 10\<rparr>"
  by (simp add: serve_meal_def silo_def get_db_def close_def select_ingredients_def
      serve_ingredient_def select_product_def add_log_def new_log_def publish_def Let_def
      db_commit_def next_id_def float_sub_def double_round_silo)

text \<open>
  C7, as the code has it. \<^verbatim>\<open>serve_meal\<close> publishes the notification of an ingredient
  inside the loop, as soon as that ingredient has passed its check, and commits after
  the loop. So the effects of a call are the notifications of the ingredients before
  the first one the stock cannot cover, in order, followed by the commit exactly when
  the call returns a serving. A call returns a serving exactly when the meal has
  ingredients and the stock covers all of them: then one notification per ingredient has
  been published, each before the commit. A call that aborts has published the
  notifications of the ingredients it had passed.
\<close>

theorem serve_meal_notifications:
  assumes "distinct (map mi_product_id (select_ingredients db (msc_meal_id ms)))"
    and "serve_meal (get_db db) ms uid now = (r, w')"
  shows "trace w' =
           map notification (takeWhile (\<lambda>i. \<not> insufficient db i)
                               (select_ingredients db (msc_meal_id ms))) @
           (case r of Inl e \<Rightarrow> [] | Inr serving \<Rightarrow> [Commit]) \<and>
         ((\<exists>serving. r = Inr serving) \<longleftrightarrow>
            select_ingredients db (msc_meal_id ms) \<noteq> [] \<and>
            list_all (\<lambda>i. \<not> insufficient db i) (select_ingredients db (msc_meal_id ms)))"
proof -
  let ?ings = "select_ingredients db (msc_meal_id ms)"
  have wk: "working (get_db db) = db" "committed (get_db db) = db" "trace (get_db db) = []"
    by (simp_all add: get_db_def)
  from assms(2) show ?thesis
  proof (cases rule: serve_meal_cases)
    case empty
    with wk show ?thesis by simp
  next
    case (abort e)
    from serve_ingredients_distinct[OF _ abort(2)] assms(1) wk abort(1,3)
    show ?thesis by (auto simp: list_all_iff)
  next
    case (commit w1)
    from serve_ingredients_distinct[OF _ commit(2)] assms(1) wk
    have tr: "trace w1 = map notification (takeWhile (\<lambda>i. \<not> insufficient db i) ?ings)"
      and ok: "\<forall>i\<in>set ?ings. \<not> insufficient db i"
      by auto
    from commit(4) have "trace w' = trace w1 @ [Commit]" by (simp add: db_commit_def)
    with tr ok commit(1,3) wk show ?thesis by (auto simp: list_all_iff)
  qed
qed

text \<open>A serving of the full kitchen: two notifications, then the commit.\<close>

theorem serve_meal_notifications_witness:
  "trace (snd (serve_meal (get_db kitchen) \<lparr>msc_meal_id = 1\<rparr> 2 0)) =
     [Publish ''inventory_updates'' (Inventory_updated 50 1),
      Publish ''inventory_updates'' (Inventory_updated 20 2), Commit]"
proof -
  have d: "distinct (map mi_product_id (select_ingredients kitchen (msc_meal_id \<lparr>msc_meal_id = 1\<rparr>)))"
    by (simp add: kitchen_def select_ingredients_def)
  have r: "serve_meal (get_db kitchen) \<lparr>msc_meal_id = 1\<rparr> 2 0 =
             (Inr \<lparr>ms_id = 1, ms_meal_id = 1, ms_user_id = 2, ms_timestamp = 0\<rparr>,
              snd (serve_meal (get_db kitchen) \<lparr>msc_meal_id = 1\<rparr> 2 0))"
    by (simp add: serve_meal_def kitchen_def get_db_def select_ingredients_def
        serve_ingredient_def select_product_def add_log_def new_log_def publish_def Let_def
        db_commit_def next_id_def)
  from serve_meal_notifications[OF d r] show ?thesis
    by (simp add: kitchen_def select_ingredients_def select_product_def insufficient_def
        notification_def)
qed

text \<open>
  C7 as stated fails: with 50 Milk and 10 Flour the call aborts at the Flour, yet the
  notification for the Milk has been published.
\<close>

theorem serve_meal_abort_publishes_counterexample:
  "fst (serve_meal (get_db scarce) \<lparr>msc_meal_id = 1\<rparr> 2 0) =
     Inl (HTTPException 400 ''Insufficient quantity for Flour'') \<and>
   trace (snd (serve_meal (get_db scarce) \<lparr>msc_meal_id = 1\<rparr> 2 0)) =
     [Publish ''inventory_updates'' (Inventory_updated 50 1)]"
  by (simp add: serve_meal_def scarce_def kitchen_def get_db_def select_ingredients_def
      serve_ingredient_def select_product_def add_log_def new_log_def publish_def Let_def
      float_sub_def double_round_zero)

section \<open>Properties of the products\<close>

lemma foldr_max_ge: "k \<in> set ks \<Longrightarrow> k \<le> foldr max ks (0::nat)"
  by (induction ks) (auto simp: max_def)

lemma next_id_fresh: "k \<in> set ks \<Longrightarrow> k \<noteq> next_id ks"
  using foldr_max_ge[of k ks] by (auto simp: next_id_def)

lemma find_fresh_id:
  "find (\<lambda>q. p_id q = next_id (map p_id ps)) ps = None"
  using next_id_fresh[of _ "map p_id ps"] by (auto simp: find_None_iff)

lemma find_append_cases:
  "find P (xs @ ys) = (case find P xs of None \<Rightarrow> find P ys | Some x \<Rightarrow> Some x)"
  by (induction xs) auto

lemma find_append_new:
  "p_id p = next_id (map p_id ps) \<Longrightarrow>
   find (\<lambda>q. p_id q = next_id (map p_id ps)) (ps @ [p]) = Some p"
  by (simp add: find_append_cases find_fresh_id)

text \<open>
  C9. Creating a product whose name is not yet in the table returns a product, and
  reading it by its id, in the same session or in the session of a later request, gives
  that product back: its name, quantity and threshold are those of the request and its
  delivery date is the server's clock reading \<open>now\<close>, whatever \<^verbatim>\<open>delivery_date\<close> the
  request carried.
\<close>

theorem create_then_get_product:
  assumes "pc_name product \<notin> p_name ` set (products db)"
    and "create_product (get_db db) product now = (r, w')"
  shows "\<exists>p. r = Inr p \<and>
             get_product w' (p_id p) = Some p \<and>
             get_product (get_db (close w')) (p_id p) = Some p \<and>
             p_name p = pc_name product \<and> p_quantity p = pc_quantity product \<and>
             p_threshold p = pc_threshold product \<and> p_delivery_date p = Some now"
  using assms
  by (auto simp: create_product_def get_product_def select_product_def get_db_def close_def
        db_commit_def add_log_def Let_def find_append_new)


text \<open>Bread, sent with delivery date 7, is stored with the server's 1000.\<close>

theorem create_then_get_product_witness:
  "get_product (get_db (close (snd (create_product (get_db kitchen)
      \<lparr>pc_name = ''Bread'', pc_quantity = 50, pc_threshold = 5, pc_delivery_date = Some 7\<rparr> 1000)))) 3 =
     Some \<lparr>p_id = 3, p_name = ''Bread'', p_quantity = 50, p_delivery_date = Some 1000, p_threshold = 5\<rparr>"
proof -
  have f: "pc_name \<lparr>pc_name = ''Bread'', pc_quantity = 50, pc_threshold = 5, pc_delivery_date = Some 7\<rparr>
             \<notin> p_name ` set (products kitchen)"
    by (simp add: kitchen_def)
  have r: "create_product (get_db kitchen)
             \<lparr>pc_name = ''Bread'', pc_quantity = 50, pc_threshold = 5, pc_delivery_date = Some 7\<rparr> 1000 =
           (Inr \<lparr>p_id = 3, p_name = ''Bread'', p_quantity = 50, p_delivery_date = Some 1000, p_threshold = 5\<rparr>,
            snd (create_product (get_db kitchen)
             \<lparr>pc_name = ''Bread'', pc_quantity = 50, pc_threshold = 5, pc_delivery_date = Some 7\<rparr> 1000))"
    by (simp add: create_product_def kitchen_def get_db_def next_id_def Let_def)
  from create_then_get_product[OF f r] show ?thesis by auto
qed











section \<open>Creating and deleting meals\<close>

text \<open>
  C3 on the code. A request for the meal Lunch with an ingredient of product 9, which
  does not exist, is answered 422 naming the product, and the meal row is in the store
  all the same: it was committed before the ingredients were looked at. No ingredient
  row is kept.
\<close>

theorem create_meal_orphan:
  "fst (create_meal (get_db kitchen)
     \<lparr>mc_name = ''Lunch'', mc_ingredients = [\<lparr>mi_meal_id = 0, mi_product_id = 9, mi_quantity = 30\<rparr>]\<rparr>) =
     Inl (HTTPException 422 ''Product with id 9 not found'') \<and>
   close (snd (create_meal (get_db kitchen)
     \<lparr>mc_name = ''Lunch'', mc_ingredients = [\<lparr>mi_meal_id = 0, mi_product_id = 9, mi_quantity = 30\<rparr>]\<rparr>)) =
     kitchen\<lparr>meals := meals kitchen @ [\<lparr>m_id = 3, m_name = ''Lunch''\<rparr>]\<rparr>"
  by (simp add: create_meal_def kitchen_def get_db_def close_def db_commit_def select_product_def
      next_id_def Let_def str_nat.simps digit_def)

lemma delete_existing_meal_absent:
  "select_meal db meal_id = None \<Longrightarrow>
   delete_existing_meal db meal_id = (Inl (HTTPException 404 ''Meal not found''), db)"
  by (simp add: delete_existing_meal_def delete_meal_def get_db_def close_def)

lemma delete_existing_meal_conflict:
  "select_meal db meal_id = Some m \<Longrightarrow> select_serving db meal_id = Some sv \<Longrightarrow>
   delete_existing_meal db meal_id =
     (Inl (HTTPException 400 ''Cannot delete meal with existing servings''), db)"
  by (simp add: delete_existing_meal_def delete_meal_def get_db_def close_def)

text \<open>
  C4 on the code. An absent meal gives 404 and a meal with a serving gives 400, as the
  two lemmas above say. Deleting Breakfast, which exists and has no serving, raises
  \<^verbatim>\<open>AttributeError\<close> and removes nothing.
\<close>

theorem delete_meal_attribute_error:
  "delete_existing_meal kitchen 1 = (Inl AttributeError, kitchen) \<and>
   select_meal kitchen 1 = Some \<lparr>m_id = 1, m_name = ''Breakfast''\<rparr> \<and>
   select_serving kitchen 1 = None"
  by (simp add: delete_existing_meal_def delete_meal_def kitchen_def get_db_def close_def
      select_meal_def select_serving_def Select_delete_def)

section \<open>The discrepancy task\<close>

lemma discrepancy_rate_zero_potential: "discrepancy_rate 0 n = 0"
  by (simp add: discrepancy_rate_def)

text \<open>
  C8 on the code. Whatever the store and the time, the task raises: the coroutine
  returned by \<^verbatim>\<open>get_portion_estimates(db)\<close> is iterated, not awaited, so the sum of
  the potential portions and the rate are never computed.
\<close>

theorem calculate_discrepancy_rate_raises:
  "calculate_discrepancy_rate db now =
     Inl (Exception ''Failed to calculate discrepancy rate: '' TypeError)"
  by (simp add: calculate_discrepancy_rate_def Let_def)

end
